theory Spec2Isabelle
  imports Complex_Main "HOL-Library.Word"
begin

section \<open>Samples, frames and images\<close>

text \<open>
  The pipeline of \<^verbatim>\<open>process_mastcam_pds.py\<close> works on NumPy arrays of
  \<^verbatim>\<open>uint8\<close> samples. A raw frame (shape \<^verbatim>\<open>(lines, samples)\<close>) is a list of
  rows; a decoded image (shape \<^verbatim>\<open>(lines, samples, 3)\<close>) is a list of rows of pixels.
  OpenCV returns the channels in the order blue, green, red, so channel index 0 is blue,
  1 is green and 2 is red (\<^verbatim>\<open>img[:, :, 2]\<close> is the red plane).
\<close>

type_synonym byte = "8 word"
type_synonym raw_frame = "byte list list"
type_synonym 'a pixel = "'a \<times> 'a \<times> 'a"
type_synonym image = "byte pixel list list"

definition ch0 :: "'a pixel \<Rightarrow> 'a" where
  "ch0 p = fst p"

definition ch1 :: "'a pixel \<Rightarrow> 'a" where
  "ch1 p = fst (snd p)"

definition ch2 :: "'a pixel \<Rightarrow> 'a" where
  "ch2 p = snd (snd p)"

section \<open>Strings\<close>

text \<open>
  A Python \<^verbatim>\<open>str\<close> is modelled as a list of characters with code points below 256.
  \<^verbatim>\<open>str.lower\<close> maps the ASCII capitals and the Latin-1 capitals (0xC0 to 0xDE,
  without the multiplication sign 0xD7) to the letter 32 places further on.
\<close>

definition lower_char :: "char \<Rightarrow> char" where
  "lower_char c =
     (let n = of_char c :: nat
      in if (65 \<le> n \<and> n \<le> 90) \<or> (192 \<le> n \<and> n \<le> 222 \<and> n \<noteq> 215)
         then char_of (n + 32) else c)"

definition lower :: "string \<Rightarrow> string" where
  "lower s = map lower_char s"

section \<open>Demosaicing\<close>

text \<open>
  The four conversion codes of OpenCV that \<^verbatim>\<open>debayer\<close> uses. They are members of
  OpenCV's enumeration \<^verbatim>\<open>ColorConversionCodes\<close> (with the values 62, 63, 64, 65 in
  the order BG, GB, RG, GR).
\<close>

datatype cv2_code =
    COLOR_BayerBG2BGR_VNG
  | COLOR_BayerGB2BGR_VNG
  | COLOR_BayerRG2BGR_VNG
  | COLOR_BayerGR2BGR_VNG

text \<open>The dictionary \<^verbatim>\<open>patterns\<close> of \<^verbatim>\<open>debayer\<close>, in the order it is written.\<close>

definition patterns :: "(string \<times> cv2_code) list" where
  "patterns =
     [(''rggb'', COLOR_BayerBG2BGR_VNG),
      (''grbg'', COLOR_BayerGB2BGR_VNG),
      (''gbrg'', COLOR_BayerGR2BGR_VNG),
      (''bggr'', COLOR_BayerRG2BGR_VNG)]"

text \<open>\<^verbatim>\<open>d.get(k, default)\<close> on a dictionary given by its items.\<close>

definition dict_get :: "('k \<times> 'v) list \<Rightarrow> 'k \<Rightarrow> 'v \<Rightarrow> 'v" where
  "dict_get d k dflt = (case map_of d k of None \<Rightarrow> dflt | Some v \<Rightarrow> v)"

text \<open>
  \<^verbatim>\<open>code = patterns.get(pattern.lower(), cv2.COLOR_BayerGB2BGR_VNG)\<close>
\<close>

definition debayer_code :: "string \<Rightarrow> cv2_code" where
  "debayer_code pattern = dict_get patterns (lower pattern) COLOR_BayerGB2BGR_VNG"

section \<open>Exceptions\<close>

text \<open>
  The exceptions that leave the functions of the program: the label cannot be parsed; the
  label has no image array (line 65); \<^verbatim>\<open>int\<close> of a string that is no integer
  literal, and of \<^verbatim>\<open>None\<close>; \<^verbatim>\<open>os.path.join\<close> with \<^verbatim>\<open>None\<close>; a file
  that does not exist; a seek to a negative offset; the short read of line 110 with the
  expected and the actual number of bytes, the path and the offset; a reshape that does
  not fit; a percentile of an empty array; a directory to make where a file is; an error
  inside OpenCV.
\<close>

datatype py_error =
    ParseError string
  | ValueError_no_array string
  | ValueError_int_literal string
  | TypeError_int_None
  | TypeError_join_None
  | FileNotFoundError string
  | OSError_negative_seek int
  | IOError_short_read int int string int
  | ValueError_reshape nat int int
  | IndexError_percentile
  | FileExistsError string
  | Cv2_error



section \<open>The colour pipeline\<close>

text \<open>
  Each stage converts the image to a floating-point working copy, computes on it, clips
  to the interval from 0 to 255 and converts back to \<^verbatim>\<open>uint8\<close>. The working copy
  is modelled over the rationals: the rounding of binary floating point is not part of the
  model, so a value that the program has only up to a rounding error is exact here. The
  conversion back truncates towards zero and keeps the low eight bits.
\<close>

definition map_pixel :: "('a \<Rightarrow> 'b) \<Rightarrow> 'a pixel \<Rightarrow> 'b pixel" where
  "map_pixel f p = (f (ch0 p), f (ch1 p), f (ch2 p))"

definition map_image :: "('a \<Rightarrow> 'b) \<Rightarrow> 'a pixel list list \<Rightarrow> 'b pixel list list" where
  "map_image f img = map (map (map_pixel f)) img"

text \<open>The plane \<^verbatim>\<open>img[:, :, c]\<close>, flattened in row-major order.\<close>

definition plane :: "('a pixel \<Rightarrow> 'a) \<Rightarrow> 'a pixel list list \<Rightarrow> 'a list" where
  "plane c img = map c (concat img)"

text \<open>All samples of the image, flattened in row-major order (\<^verbatim>\<open>img.ravel()\<close>).\<close>

definition ravel :: "'a pixel list list \<Rightarrow> 'a list" where
  "ravel img = concat (map (\<lambda>p. [ch0 p, ch1 p, ch2 p]) (concat img))"

definition to_float :: "byte \<Rightarrow> rat" where
  "to_float v = of_nat (unat v)"

definition astype_float :: "image \<Rightarrow> rat pixel list list" where
  "astype_float img = map_image to_float img"

text \<open>\<^verbatim>\<open>np.clip(x, 0, 255)\<close>, which is \<^verbatim>\<open>minimum(maximum(x, 0), 255)\<close>.\<close>

definition clip :: "rat \<Rightarrow> rat" where
  "clip x = min (max x 0) 255"

definition astype_uint8 :: "rat \<Rightarrow> byte" where
  "astype_uint8 x = word_of_int (if 0 \<le> x then \<lfloor>x\<rfloor> else \<lceil>x\<rceil>)"

definition clip_uint8 :: "rat pixel list list \<Rightarrow> image" where
  "clip_uint8 fimg = map_image (\<lambda>x. astype_uint8 (clip x)) fimg"

text \<open>\<^verbatim>\<open>img[:, :, 2] *= k\<close> and \<^verbatim>\<open>img[:, :, 0] *= k\<close> and \<^verbatim>\<open>img[:, :, 1] *= k\<close>.\<close>

definition scale_ch0 :: "rat \<Rightarrow> rat pixel list list \<Rightarrow> rat pixel list list" where
  "scale_ch0 k fimg = map (map (\<lambda>p. (ch0 p * k, ch1 p, ch2 p))) fimg"

definition scale_ch1 :: "rat \<Rightarrow> rat pixel list list \<Rightarrow> rat pixel list list" where
  "scale_ch1 k fimg = map (map (\<lambda>p. (ch0 p, ch1 p * k, ch2 p))) fimg"

definition scale_ch2 :: "rat \<Rightarrow> rat pixel list list \<Rightarrow> rat pixel list list" where
  "scale_ch2 k fimg = map (map (\<lambda>p. (ch0 p, ch1 p, ch2 p * k))) fimg"

text \<open>
  \<^verbatim>\<open>np.mean\<close> of a plane. The mean of an empty array is NaN (with a warning, not an
  exception): it is \<open>None\<close> here, and every comparison with it is false.
\<close>

definition np_mean :: "rat list \<Rightarrow> rat option" where
  "np_mean xs = (if xs = [] then None else Some (sum_list xs / of_nat (length xs)))"

definition gt_zero :: "rat option \<Rightarrow> bool" where
  "gt_zero m = (case m of None \<Rightarrow> False | Some x \<Rightarrow> 0 < x)"

text \<open>
  The quotient \<^verbatim>\<open>mean_g / mean_r\<close>, computed only under \<^verbatim>\<open>mean_r > 0\<close>. Both
  means are numbers then, since the planes have the same size.
\<close>

definition ratio :: "rat option \<Rightarrow> rat option \<Rightarrow> rat" where
  "ratio mg mr = (case (mg, mr) of (Some g, Some r) \<Rightarrow> g / r | _ \<Rightarrow> 1)"

definition white_balance :: "image \<Rightarrow> image" where
  "white_balance img =
     (let fimg = astype_float img;
          mean_r = np_mean (plane ch2 fimg);
          mean_g = np_mean (plane ch1 fimg);
          mean_b = np_mean (plane ch0 fimg);
          fimg1 = (if gt_zero mean_r then scale_ch2 (ratio mean_g mean_r) fimg else fimg);
          fimg2 = (if gt_zero mean_b then scale_ch0 (ratio mean_g mean_b) fimg1 else fimg1)
      in clip_uint8 fimg2)"


text \<open>
  The working copy of \<^verbatim>\<open>color_correct\<close> after its three multiplications, before
  the clipping: red by 1.10, green by 1.00, blue by 0.85.
\<close>

definition color_scaled :: "image \<Rightarrow> rat pixel list list" where
  "color_scaled img =
     scale_ch0 (85 / 100) (scale_ch1 (100 / 100) (scale_ch2 (110 / 100) (astype_float img)))"

definition color_correct :: "image \<Rightarrow> image" where
  "color_correct img = clip_uint8 (color_scaled img)"

text \<open>
  \<^verbatim>\<open>np.percentile(a, q)\<close> with the default linear interpolation, on the flattened
  array: the array is sorted, the virtual index is \<open>q / 100 * (n - 1)\<close>, and the result
  interpolates between the two samples around it (the sample at the index below and its
  successor, or the last sample again at the end). NumPy has no percentile of an empty
  array: the result is \<open>None\<close>.
\<close>

definition interpolate :: "rat list \<Rightarrow> rat \<Rightarrow> rat" where
  "interpolate s vi =
     (let n = length s;
          j = nat \<lfloor>vi\<rfloor>;
          j' = min (j + 1) (n - 1);
          gamma = vi - of_int \<lfloor>vi\<rfloor>
      in s ! j + (s ! j' - s ! j) * gamma)"

definition np_percentile :: "rat list \<Rightarrow> rat \<Rightarrow> rat option" where
  "np_percentile a q =
     (if a = [] then None
      else let s = sort a in Some (interpolate s (q / 100 * of_nat (length s - 1))))"

text \<open>The linear map of the stretch, \<^verbatim>\<open>(x - imin) * 255.0 / (imax - imin)\<close>.\<close>

definition stretch_map :: "rat \<Rightarrow> rat \<Rightarrow> rat \<Rightarrow> rat" where
  "stretch_map imin imax x = (x - imin) * 255 / (imax - imin)"

definition stretch_sample :: "rat \<Rightarrow> rat \<Rightarrow> byte \<Rightarrow> byte" where
  "stretch_sample imin imax v = astype_uint8 (clip (stretch_map imin imax (to_float v)))"

definition stretch_contrast :: "image \<Rightarrow> py_error + image" where
  "stretch_contrast img =
     (case (np_percentile (map to_float (ravel img)) (5 / 10),
            np_percentile (map to_float (ravel img)) (995 / 10)) of
        (Some imin, Some imax) \<Rightarrow>
          if imax - imin = 0 then Inr img
          else Inr (map_image (stretch_sample imin imax) img)
      | _ \<Rightarrow> Inl IndexError_percentile)"

section \<open>Reading the raw frame\<close>

text \<open>
  The regular files of the file system, each with its content. \<^verbatim>\<open>open(path, "rb")\<close>
  raises \<^verbatim>\<open>FileNotFoundError\<close> for a path that is not among them.
\<close>

type_synonym file_system = "string \<rightharpoonup> byte list"

text \<open>The rows of a buffer in row-major order: row \<open>i\<close> is the slice from \<open>i * c\<close>.\<close>

definition rows_of :: "nat \<Rightarrow> nat \<Rightarrow> 'a list \<Rightarrow> 'a list list" where
  "rows_of r c xs = map (\<lambda>i. take c (drop (i * c) xs)) [0..<r]"

text \<open>
  \<^verbatim>\<open>data.reshape((lines, samples))\<close>: the product of the two dimensions must be the
  size of the buffer; one dimension may be \<open>-1\<close> and is then inferred; any other negative
  dimension is refused.
\<close>

definition np_reshape :: "byte list \<Rightarrow> int \<Rightarrow> int \<Rightarrow> py_error + raw_frame" where
  "np_reshape data lines samples =
     (let n = int (length data);
          bad = Inl (ValueError_reshape (length data) lines samples)
      in if lines < - 1 \<or> samples < - 1 \<or> (lines = - 1 \<and> samples = - 1) then bad
         else if lines = - 1 then
           (if samples \<noteq> 0 \<and> n mod samples = 0
            then Inr (rows_of (nat (n div samples)) (nat samples) data) else bad)
         else if samples = - 1 then
           (if lines \<noteq> 0 \<and> n mod lines = 0
            then Inr (rows_of (nat lines) (nat (n div lines)) data) else bad)
         else if lines * samples = n then Inr (rows_of (nat lines) (nat samples) data)
         else bad)"

text \<open>
  \<^verbatim>\<open>read_raw_img(path, offset, samples, lines)\<close>. Seeking to a negative offset
  raises; seeking past the end does not, and the read that follows returns no bytes.
  \<^verbatim>\<open>f.read(n)\<close> returns at most \<open>n\<close> bytes, and everything up to the end of the
  file when \<open>n\<close> is negative.
\<close>

definition read_raw_img ::
  "file_system \<Rightarrow> string \<Rightarrow> int \<Rightarrow> int \<Rightarrow> int \<Rightarrow> py_error + raw_frame" where
  "read_raw_img fs path offset samples lines =
     (let expected_bytes = samples * lines
      in case fs path of
           None \<Rightarrow> Inl (FileNotFoundError path)
         | Some content \<Rightarrow>
             if offset < 0 then Inl (OSError_negative_seek offset)
             else
               let rest = drop (nat offset) content;
                   raw = (if expected_bytes < 0 then rest else take (nat expected_bytes) rest)
               in if int (length raw) < expected_bytes
                  then Inl (IOError_short_read expected_bytes (int (length raw)) path offset)
                  else np_reshape raw lines samples)"

section \<open>The label\<close>

text \<open>
  An element of \<^verbatim>\<open>xml.etree.ElementTree\<close>: its \<^verbatim>\<open>tag\<close> (a qualified name
  is written \<^verbatim>\<open>{uri}local\<close>), its \<^verbatim>\<open>text\<close> (here \<open>etext\<close>), its
  \<^verbatim>\<open>tail\<close> (the text between its end and the next sibling) and its children.
\<close>

datatype element =
  Element (tag: string) (etext: "string option") (tail: "string option")
    (children: "element list")

text \<open>\<^verbatim>\<open>elem.iter()\<close>: the element and its descendants in document order.\<close>

fun iter :: "element \<Rightarrow> element list" where
  "iter (Element t x y cs) = Element t x y cs # concat (map iter cs)"

text \<open>\<^verbatim>\<open>elem.itertext()\<close>: the non-empty texts and tails inside the element, in order.\<close>

definition nonempty_text :: "string option \<Rightarrow> string list" where
  "nonempty_text t = (case t of None \<Rightarrow> [] | Some s \<Rightarrow> (if s = [] then [] else [s]))"

fun itertext :: "element \<Rightarrow> string list" where
  "itertext (Element t x y cs) =
     nonempty_text x @ concat (map (\<lambda>c. itertext c @ nonempty_text (tail c)) cs)"

text \<open>
  The steps of the path language that the label reader uses: \<^verbatim>\<open>.//tag\<close> selects
  the descendants with the tag (never the context element itself), \<^verbatim>\<open>/tag\<close> the
  children with the tag, and the predicate \<^verbatim>\<open>[child='value']\<close> keeps an element that
  has a child with that tag whose whole text content equals the value.
\<close>

definition descendants :: "string \<Rightarrow> element \<Rightarrow> element list" where
  "descendants t e = filter (\<lambda>d. tag d = t) (concat (map iter (children e)))"

definition children_named :: "string \<Rightarrow> element \<Rightarrow> element list" where
  "children_named t e = filter (\<lambda>c. tag c = t) (children e)"

definition child_text_is :: "string \<Rightarrow> string \<Rightarrow> element \<Rightarrow> bool" where
  "child_text_is t v e = list_ex (\<lambda>c. concat (itertext c) = v) (children_named t e)"

text \<open>\<^verbatim>\<open>find\<close> returns the first match; \<^verbatim>\<open>findtext\<close> its text, or the empty
  string when the match has no text, or \<^verbatim>\<open>None\<close> when nothing matches.\<close>

definition find_first :: "element list \<Rightarrow> element option" where
  "find_first es = (case es of [] \<Rightarrow> None | e # _ \<Rightarrow> Some e)"

definition findtext :: "element list \<Rightarrow> string option" where
  "findtext es =
     (case es of [] \<Rightarrow> None
      | e # _ \<Rightarrow> Some (case etext e of None \<Rightarrow> [] | Some s \<Rightarrow> s))"

text \<open>The prefix \<^verbatim>\<open>pds:\<close> of the namespace map \<^verbatim>\<open>ns\<close>.\<close>

definition pds :: "string \<Rightarrow> string" where
  "pds name = ''{http://pds.nasa.gov/pds4/pds/v1}'' @ name"

text \<open>
  \<^verbatim>\<open>.//pds:Axis_Array[pds:axis_name='Line']/pds:elements\<close> and its form without
  namespace, \<open>q\<close> being the qualification of the names.
\<close>

definition axis_elements :: "(string \<Rightarrow> string) \<Rightarrow> string \<Rightarrow> element \<Rightarrow> element list" where
  "axis_elements q axis arr =
     concat (map (children_named (q ''elements''))
       (filter (child_text_is (q ''axis_name'') axis) (descendants (q ''Axis_Array'') arr)))"

text \<open>Python's \<^verbatim>\<open>a or b\<close> on optional strings: \<open>a\<close> when it is a non-empty string.\<close>

definition py_or :: "string option \<Rightarrow> string option \<Rightarrow> string option" where
  "py_or a b = (case a of None \<Rightarrow> b | Some s \<Rightarrow> (if s = [] then b else Some s))"

text \<open>
  \<^verbatim>\<open>int(s)\<close>: white space around the literal is dropped; a sign may come first; then
  decimal digits, where single underscores may stand between two digits.
\<close>

definition is_space :: "char \<Rightarrow> bool" where
  "is_space c = (of_char c \<in> {9, 10, 11, 12, 13, 28, 29, 30, 31, 32, 133, 160 :: nat})"

definition is_digit :: "char \<Rightarrow> bool" where
  "is_digit c = (48 \<le> (of_char c :: nat) \<and> (of_char c :: nat) \<le> 57)"

definition digit_val :: "char \<Rightarrow> int" where
  "digit_val c = int (of_char c) - 48"

definition strip :: "string \<Rightarrow> string" where
  "strip s = rev (dropWhile is_space (rev (dropWhile is_space s)))"

fun parse_digits :: "string \<Rightarrow> int \<Rightarrow> int option" where
  "parse_digits [] acc = Some acc"
| "parse_digits [c] acc = (if is_digit c then Some (10 * acc + digit_val c) else None)"
| "parse_digits (c # d # ds) acc =
     (if is_digit c then parse_digits (d # ds) (10 * acc + digit_val c)
      else if c = CHR ''_'' \<and> is_digit d then parse_digits ds (10 * acc + digit_val d)
      else None)"

definition parse_unsigned :: "string \<Rightarrow> int option" where
  "parse_unsigned u =
     (case u of [] \<Rightarrow> None
      | c # cs \<Rightarrow> (if is_digit c then parse_digits cs (digit_val c) else None))"

definition parse_int_literal :: "string \<Rightarrow> int option" where
  "parse_int_literal s =
     (case strip s of
        [] \<Rightarrow> None
      | c # cs \<Rightarrow>
          if c = CHR ''-'' then map_option uminus (parse_unsigned cs)
          else if c = CHR ''+'' then parse_unsigned cs
          else parse_unsigned (c # cs))"

text \<open>\<^verbatim>\<open>int(x)\<close> where \<open>x\<close> is a string or \<^verbatim>\<open>None\<close>.\<close>

definition py_int :: "string option \<Rightarrow> py_error + int" where
  "py_int x =
     (case x of
        None \<Rightarrow> Inl TypeError_int_None
      | Some s \<Rightarrow>
          (case parse_int_literal s of
             None \<Rightarrow> Inl (ValueError_int_literal s)
           | Some n \<Rightarrow> Inr n))"

text \<open>\<^verbatim>\<open>if arr is None: arr = ...\<close>: the second lookup only when the first found nothing.\<close>

definition py_or_elem :: "element option \<Rightarrow> element option \<Rightarrow> element option" where
  "py_or_elem a b = (case a of None \<Rightarrow> b | Some e \<Rightarrow> Some e)"

text \<open>The dictionary \<^verbatim>\<open>info\<close> that the label reader returns.\<close>

record info =
  file_name :: "string option"
  offset :: int
  lines :: int
  samples :: int
  bits :: int
  bayer :: string
  lut :: "unit option"

text \<open>
  The lookups of \<^verbatim>\<open>parse_pds4_label\<close> on the root element \<open>rt\<close> of the parsed
  label and on the image array \<open>a\<close>: each tries the name in the PDS namespace first
  and the bare name second. The file name is looked up in the namespace only.
\<close>

definition file_name_text :: "element \<Rightarrow> string option" where
  "file_name_text rt = findtext (descendants (pds ''file_name'') rt)"

definition image_array :: "element \<Rightarrow> element option" where
  "image_array rt =
     py_or_elem (find_first (descendants (pds ''Array_2D_Image'') rt))
       (find_first (descendants ''Array_2D_Image'' rt))"

definition offset_text :: "element \<Rightarrow> string option" where
  "offset_text a =
     py_or (findtext (descendants (pds ''offset'') a)) (findtext (descendants ''offset'' a))"

definition lines_text :: "element \<Rightarrow> string option" where
  "lines_text a =
     py_or (findtext (axis_elements pds ''Line'' a))
       (findtext (axis_elements (\<lambda>n. n) ''Line'' a))"

definition samples_text :: "element \<Rightarrow> string option" where
  "samples_text a =
     py_or (findtext (axis_elements pds ''Sample'' a))
       (findtext (axis_elements (\<lambda>n. n) ''Sample'' a))"

text \<open>
  The body of \<^verbatim>\<open>parse_pds4_label\<close> up to the dictionary (lines 57 to 92): the
  three conversions to \<^verbatim>\<open>int\<close> run in the order offset, lines, samples, and the
  first one that raises ends the function.
\<close>

definition label_info :: "string \<Rightarrow> element \<Rightarrow> py_error + info" where
  "label_info xml_path rt =
     (let fname = file_name_text rt
      in case image_array rt of
           None \<Rightarrow> Inl (ValueError_no_array xml_path)
         | Some a \<Rightarrow>
             (case py_int (offset_text a) of
                Inl e \<Rightarrow> Inl e
              | Inr off \<Rightarrow>
                  (case py_int (lines_text a) of
                     Inl e \<Rightarrow> Inl e
                   | Inr lns \<Rightarrow>
                       (case py_int (samples_text a) of
                          Inl e \<Rightarrow> Inl e
                        | Inr smp \<Rightarrow>
                            Inr \<lparr>file_name = fname, offset = off, lines = lns, samples = smp,
                                 bits = 8, bayer = ''grbg'', lut = None\<rparr>))))"

section \<open>Paths\<close>

text \<open>
  The functions of \<^verbatim>\<open>os.path\<close> that the processor uses, with \<^verbatim>\<open>/\<close> as the
  separator. \<open>rfind c p\<close> is the index of the last \<open>c\<close> in \<open>p\<close>, or \<open>-1\<close>.
\<close>

definition rfind :: "char \<Rightarrow> string \<Rightarrow> int" where
  "rfind c p = int (length p) - 1 - int (length (takeWhile (\<lambda>x. x \<noteq> c) (rev p)))"

definition dirname :: "string \<Rightarrow> string" where
  "dirname p =
     (let i = nat (rfind CHR ''/'' p + 1);
          head = take i p
      in if head \<noteq> [] \<and> head \<noteq> replicate (length head) CHR ''/''
         then rev (dropWhile (\<lambda>x. x = CHR ''/'') (rev head)) else head)"

definition basename :: "string \<Rightarrow> string" where
  "basename p = drop (nat (rfind CHR ''/'' p + 1)) p"

definition path_join :: "string \<Rightarrow> string \<Rightarrow> string" where
  "path_join a b =
     (if b \<noteq> [] \<and> hd b = CHR ''/'' then b
      else if a = [] \<or> last a = CHR ''/'' then a @ b
      else a @ ''/'' @ b)"

definition splitext :: "string \<Rightarrow> string \<times> string" where
  "splitext p =
     (let sepIndex = rfind CHR ''/'' p;
          dotIndex = rfind CHR ''.'' p
      in if dotIndex > sepIndex \<and>
            list_ex (\<lambda>x. x \<noteq> CHR ''.'')
              (take (nat (dotIndex - (sepIndex + 1))) (drop (nat (sepIndex + 1)) p))
         then (take (nat dotIndex) p, drop (nat dotIndex) p)
         else (p, []))"

section \<open>Processing one image\<close>

text \<open>What \<^verbatim>\<open>ET.parse(path)\<close> finds at a path.\<close>

datatype xml_source = No_such_file | Not_well_formed | Document element

text \<open>The lines that the program prints, by their kind and the values they show.\<close>

datatype message =
    Xml_parsed int int int
  | Warning_img_not_found string
  | Processing string
  | Offset_line int
  | Size_line int int
  | Bayer_line string
  | Saved string
  | Label_progress nat nat string
  | Error_line py_error
  | Blank_line

text \<open>
  The world of one run: the labels and the raw files it can read, the directories it has
  made, the images it has handed to the encoder with their destinations, and its
  standard output. The encoded output files are kept apart from the raw files: a label
  that names an output of the same run as its raw file is outside the model.
\<close>

record world =
  labels :: "string \<Rightarrow> xml_source"
  files :: file_system
  made_dirs :: "string list"
  written :: "(string \<times> image) list"
  stdout :: "message list"

definition print :: "message \<Rightarrow> world \<Rightarrow> world" where
  "print m w = w\<lparr>stdout := stdout w @ [m]\<rparr>"

definition parse_pds4_label :: "world \<Rightarrow> string \<Rightarrow> (py_error + info) \<times> world" where
  "parse_pds4_label w xml_path =
     (case labels w xml_path of
        No_such_file \<Rightarrow> (Inl (FileNotFoundError xml_path), w)
      | Not_well_formed \<Rightarrow> (Inl (ParseError xml_path), w)
      | Document rt \<Rightarrow>
          (case label_info xml_path rt of
             Inl e \<Rightarrow> (Inl e, w)
           | Inr i \<Rightarrow> (Inr i, print (Xml_parsed (offset i) (samples i) (lines i)) w)))"

text \<open>
  \<^verbatim>\<open>cv2.cvtColor\<close> is OpenCV's; the processor is modelled over any function
  \<open>cvt\<close> from a frame and a conversion code to an image or an error.
\<close>

type_synonym cvtColor = "raw_frame \<Rightarrow> cv2_code \<Rightarrow> py_error + image"

definition debayer :: "cvtColor \<Rightarrow> raw_frame \<Rightarrow> string \<Rightarrow> py_error + image" where
  "debayer cvt bayer_img pattern = cvt bayer_img (debayer_code pattern)"

text \<open>\<^verbatim>\<open>os.path.isfile\<close>.\<close>

definition isfile :: "world \<Rightarrow> string \<Rightarrow> bool" where
  "isfile w p = (files w p \<noteq> None)"

text \<open>
  \<^verbatim>\<open>os.makedirs(dest_dir, exist_ok=True)\<close> raises when the path is a regular file.
\<close>

definition makedirs :: "world \<Rightarrow> string \<Rightarrow> py_error + world" where
  "makedirs w d =
     (if isfile w d then Inl (FileExistsError d)
      else Inr (w\<lparr>made_dirs := made_dirs w @ [d]\<rparr>))"

text \<open>
  \<^verbatim>\<open>cv2.imwrite(out_path, rgb)\<close> hands the image to OpenCV's encoder; the world
  records the destination and the image. Failures of the operating system other than the
  ones above (permissions, a full disk) are not part of the model.
\<close>

definition imwrite :: "string \<Rightarrow> image \<Rightarrow> world \<Rightarrow> world" where
  "imwrite out_path rgb w = w\<lparr>written := written w @ [(out_path, rgb)]\<rparr>"

text \<open>Python's \<^verbatim>\<open>a or b\<close> where \<open>b\<close> is a string.\<close>

definition or_default :: "string option \<Rightarrow> string \<Rightarrow> string" where
  "or_default a b = (case a of None \<Rightarrow> b | Some s \<Rightarrow> (if s = [] then b else s))"

text \<open>The three colour stages in the order of the processor.\<close>

definition colour_pipeline :: "image \<Rightarrow> py_error + image" where
  "colour_pipeline rgb = stretch_contrast (color_correct (white_balance rgb))"

text \<open>
  \<^verbatim>\<open>process_pds_image(xml_path, output_dir, bayer_override)\<close>. The result is
  \<open>Inl\<close> for an exception that leaves the function, \<open>Inr None\<close> for the return of
  \<^verbatim>\<open>None\<close> and \<open>Inr (Some out_path)\<close> for the return of the path.
\<close>

definition process_pds_image ::
  "cvtColor \<Rightarrow> world \<Rightarrow> string \<Rightarrow> string option \<Rightarrow> string option
    \<Rightarrow> (py_error + string option) \<times> world" where
  "process_pds_image cvt w xml_path output_dir bayer_override =
     (case parse_pds4_label w xml_path of
        (Inl e, w1) \<Rightarrow> (Inl e, w1)
      | (Inr i, w1) \<Rightarrow>
          (case file_name i of
             None \<Rightarrow> (Inl TypeError_join_None, w1)
           | Some fname \<Rightarrow>
               let img_path = path_join (dirname xml_path) fname
               in if \<not> isfile w1 img_path
                  then (Inr None, print (Warning_img_not_found img_path) w1)
                  else
                    let pattern = or_default bayer_override (bayer i);
                        w2 = print (Bayer_line pattern)
                               (print (Size_line (samples i) (lines i))
                                 (print (Offset_line (offset i))
                                   (print (Processing fname) w1)))
                    in case read_raw_img (files w2) img_path (offset i) (samples i) (lines i) of
                         Inl e \<Rightarrow> (Inl e, w2)
                       | Inr bayer_img \<Rightarrow>
                           (case debayer cvt bayer_img pattern of
                              Inl e \<Rightarrow> (Inl e, w2)
                            | Inr rgb0 \<Rightarrow>
                                (case colour_pipeline rgb0 of
                                   Inl e \<Rightarrow> (Inl e, w2)
                                 | Inr rgb \<Rightarrow>
                                     let dest_dir =
                                           or_default output_dir
                                             (path_join (or_default (Some (dirname xml_path)) ''.'')
                                                ''output_png'')
                                     in case makedirs w2 dest_dir of
                                          Inl e \<Rightarrow> (Inl e, w2)
                                        | Inr w3 \<Rightarrow>
                                            let base_name =
                                                  fst (splitext (basename img_path)) @ ''_RGB.png'';
                                                out_path = path_join dest_dir base_name
                                            in (Inr (Some out_path),
                                                print (Saved out_path)
                                                  (imwrite out_path rgb w3))))))"

section \<open>The batch loop\<close>


text \<open>
  A stand-in for OpenCV on which the processor can be evaluated: it copies every sample
  of the frame into the three channels, whatever the code.
\<close>

definition cvt_gray :: cvtColor where
  "cvt_gray frame code = Inr (map (map (\<lambda>v. (v, v, v))) frame)"



section \<open>The naming conventions of Bayer patterns\<close>

text \<open>
  The documentation of \<^verbatim>\<open>debayer\<close> states the two conventions. A token such as
  \<^verbatim>\<open>RGGB\<close> lists the top-left 2 by 2 cell of the colour filter array in row-major
  order, and the array repeats that cell. OpenCV names a pattern by the two filters in
  the second row of the array, at its second and third columns.
\<close>

definition cfa_at :: "string \<Rightarrow> nat \<Rightarrow> nat \<Rightarrow> char" where
  "cfa_at token i j = token ! (2 * (i mod 2) + j mod 2)"

definition opencv_letters :: "string \<Rightarrow> string" where
  "opencv_letters token = [cfa_at token 1 1, cfa_at token 1 2]"

text \<open>The two letters in the name of a conversion code.\<close>

fun code_letters :: "cv2_code \<Rightarrow> string" where
  "code_letters COLOR_BayerBG2BGR_VNG = ''BG''"
| "code_letters COLOR_BayerGB2BGR_VNG = ''GB''"
| "code_letters COLOR_BayerRG2BGR_VNG = ''RG''"
| "code_letters COLOR_BayerGR2BGR_VNG = ''GR''"

section \<open>A label and a world to evaluate on\<close>

text \<open>
  A label in the PDS namespace with a file name (when one is given), and an image array
  with the given texts for its offset, its number of lines and its number of samples.
\<close>

definition example_label :: "string option \<Rightarrow> string \<Rightarrow> string \<Rightarrow> string \<Rightarrow> element" where
  "example_label fname off lns smp =
     Element (pds ''Product_Observational'') None None
       ((case fname of
           None \<Rightarrow> []
         | Some f \<Rightarrow>
             [Element (pds ''File'') None None [Element (pds ''file_name'') (Some f) None []]])
        @ [Element (pds ''Array_2D_Image'') None None
             [Element (pds ''offset'') (Some off) None [],
              Element (pds ''Axis_Array'') None None
                [Element (pds ''axis_name'') (Some ''Line'') None [],
                 Element (pds ''elements'') (Some lns) None []],
              Element (pds ''Axis_Array'') None None
                [Element (pds ''axis_name'') (Some ''Sample'') None [],
                 Element (pds ''elements'') (Some smp) None []]]])"

text \<open>
  A directory \<^verbatim>\<open>d\<close> with a good label \<^verbatim>\<open>good.xml\<close> for the raw file
  \<^verbatim>\<open>x.img\<close> (a frame of one line of two samples after one byte of header), a label
  \<^verbatim>\<open>noimg.xml\<close> whose raw file is missing, a label \<^verbatim>\<open>noarray.xml\<close> without
  an image array, and a label \<^verbatim>\<open>short.xml\<close> that declares more samples than
  \<^verbatim>\<open>x.img\<close> holds.
\<close>

definition example_labels :: "string \<Rightarrow> xml_source" where
  "example_labels p =
     (if p = ''d/good.xml'' then Document (example_label (Some ''x.img'') ''1'' ''1'' ''2'')
      else if p = ''d/noimg.xml'' then Document (example_label (Some ''y.img'') ''1'' ''1'' ''2'')
      else if p = ''d/noarray.xml''
        then Document (Element (pds ''Product_Observational'') None None
               [Element (pds ''file_name'') (Some ''x.img'') None []])
      else if p = ''d/short.xml'' then Document (example_label (Some ''x.img'') ''1'' ''1'' ''3'')
      else No_such_file)"

definition example_world :: world where
  "example_world =
     \<lparr>labels = example_labels,
      files = [''d/x.img'' \<mapsto> [9, 0, 255]],
      made_dirs = [], written = [], stdout = []\<rparr>"

section \<open>Properties of the demosaic mapping\<close>

lemma lower_tokens:
  "lower ''RGGB'' = ''rggb''" "lower ''GRBG'' = ''grbg''"
  "lower ''GBRG'' = ''gbrg''" "lower ''BGGR'' = ''bggr''"
  "lower ''rggb'' = ''rggb''" "lower ''grbg'' = ''grbg''"
  "lower ''gbrg'' = ''gbrg''" "lower ''bggr'' = ''bggr''"
  by code_simp+

lemma debayer_code_upper:
  "debayer_code ''RGGB'' = COLOR_BayerBG2BGR_VNG"
  "debayer_code ''GRBG'' = COLOR_BayerGB2BGR_VNG"
  "debayer_code ''GBRG'' = COLOR_BayerGR2BGR_VNG"
  "debayer_code ''BGGR'' = COLOR_BayerRG2BGR_VNG"
  by (simp_all add: debayer_code_def dict_get_def patterns_def lower_tokens)

lemma debayer_code_lower:
  "debayer_code ''rggb'' = COLOR_BayerBG2BGR_VNG"
  "debayer_code ''grbg'' = COLOR_BayerGB2BGR_VNG"
  "debayer_code ''gbrg'' = COLOR_BayerGR2BGR_VNG"
  "debayer_code ''bggr'' = COLOR_BayerRG2BGR_VNG"
  by (simp_all add: debayer_code_def dict_get_def patterns_def lower_tokens)

text \<open>
  C1. The four canonical tokens, which name the pattern from the top-left corner, select
  the conversion codes BG, GB, GR and RG for RGGB, GRBG, GBRG and BGGR, in capitals and in
  small letters alike. The four codes are pairwise distinct. Each code is the one whose
  name OpenCV's convention gives to the token's array, that is, the name read off one row
  down and one column to the right.
\<close>

theorem debayer_code_canonical:
  "debayer_code ''RGGB'' = COLOR_BayerBG2BGR_VNG
   \<and> debayer_code ''GRBG'' = COLOR_BayerGB2BGR_VNG
   \<and> debayer_code ''GBRG'' = COLOR_BayerGR2BGR_VNG
   \<and> debayer_code ''BGGR'' = COLOR_BayerRG2BGR_VNG
   \<and> map debayer_code [''rggb'', ''grbg'', ''gbrg'', ''bggr'']
       = map debayer_code [''RGGB'', ''GRBG'', ''GBRG'', ''BGGR'']
   \<and> distinct (map debayer_code [''RGGB'', ''GRBG'', ''GBRG'', ''BGGR''])
   \<and> map (\<lambda>t. code_letters (debayer_code t)) [''RGGB'', ''GRBG'', ''GBRG'', ''BGGR'']
       = map opencv_letters [''RGGB'', ''GRBG'', ''GBRG'', ''BGGR'']"
  by (simp add: debayer_code_upper debayer_code_lower opencv_letters_def cfa_at_def)

section \<open>Properties of the raw frame extraction\<close>









section \<open>Unknown pattern tokens\<close>






section \<open>Evaluation on the example\<close>

lemma floor_rat_numeral: "\<lfloor>numeral a / numeral b :: rat\<rfloor> = numeral a div numeral b"
  using floor_divide_of_int_eq [of "numeral a" "numeral b", where ?'a = rat] by simp

lemmas pixel_simps =
  map_image_def map_pixel_def ch0_def ch1_def ch2_def plane_def ravel_def
  astype_float_def clip_uint8_def scale_ch0_def scale_ch1_def scale_ch2_def
  to_float_def clip_def astype_uint8_def floor_rat_numeral

lemmas label_simps =
  label_info_def file_name_text_def image_array_def offset_text_def lines_text_def
  samples_text_def example_label_def descendants_def children_named_def child_text_is_def
  axis_elements_def findtext_def find_first_def py_or_def py_or_elem_def pds_def
  nonempty_text_def

lemma py_int_examples:
  "py_int (Some ''1'') = Inr 1" "py_int (Some ''2'') = Inr 2" "py_int (Some ''3'') = Inr 3"
  "py_int (Some ''-1'') = Inr (- 1)" "py_int (Some ''-2'') = Inr (- 2)"
  by code_simp+

lemma example_paths:
  "dirname ''d/good.xml'' = ''d''" "dirname ''d/noimg.xml'' = ''d''"
  "dirname ''d/noarray.xml'' = ''d''" "dirname ''d/short.xml'' = ''d''"
  "path_join ''d'' ''x.img'' = ''d/x.img''" "path_join ''d'' ''y.img'' = ''d/y.img''"
  "path_join ''d'' ''output_png'' = ''d/output_png''"
  "basename ''d/x.img'' = ''x.img''" "splitext ''x.img'' = (''x'', ''.img'')"
  "path_join ''d/output_png'' ''x_RGB.png'' = ''d/output_png/x_RGB.png''"
  "basename ''d/good.xml'' = ''good.xml''" "basename ''d/noarray.xml'' = ''noarray.xml''"
  "basename ''d/noimg.xml'' = ''noimg.xml''" "basename ''d/short.xml'' = ''short.xml''"
  by code_simp+






section \<open>Properties of the processor and of the batch loop\<close>

lemma parse_pds4_label_world:
  assumes "fst (parse_pds4_label w xml_path) = Inr i"
  shows "parse_pds4_label w xml_path
      = (Inr i, print (Xml_parsed (offset i) (samples i) (lines i)) w)"
  using assms
  by (auto simp: parse_pds4_label_def split: xml_source.splits sum.splits)




text \<open>
  C10. When the label parses and names a raw file that is not a regular file at the
  label's directory, \<^verbatim>\<open>process_pds_image\<close> returns \<^verbatim>\<open>None\<close> and raises
  nothing. It prints the line of the parsed label and then the warning that the image file
  was not found, and it changes nothing else: no image is written, no directory is made,
  no file is touched.
\<close>

theorem process_pds_image_missing_img:
  assumes "fst (parse_pds4_label w xml_path) = Inr i"
    and "file_name i = Some fname"
    and "\<not> isfile w (path_join (dirname xml_path) fname)"
  shows "process_pds_image cvt w xml_path output_dir bayer_override
      = (Inr None,
         w\<lparr>stdout := stdout w @ [Xml_parsed (offset i) (samples i) (lines i),
              Warning_img_not_found (path_join (dirname xml_path) fname)]\<rparr>)
    \<and> written (snd (process_pds_image cvt w xml_path output_dir bayer_override)) = written w
    \<and> made_dirs (snd (process_pds_image cvt w xml_path output_dir bayer_override)) = made_dirs w
    \<and> files (snd (process_pds_image cvt w xml_path output_dir bayer_override)) = files w"
  using assms
  by (simp add: process_pds_image_def parse_pds4_label_world [OF assms(1)] Let_def print_def
      isfile_def)





lemma example_world_fields:
  "files example_world ''d/x.img'' = Some [9, 0, 255]"
  "files example_world ''d/y.img'' = None"
  "files example_world ''d/output_png'' = None"
  "made_dirs example_world = []" "written example_world = []" "stdout example_world = []"
  "labels example_world = example_labels"
  by (simp_all add: example_world_def)

lemma example_parse_noimg:
  "parse_pds4_label example_world ''d/noimg.xml''
    = (Inr \<lparr>file_name = Some ''y.img'', offset = 1, lines = 1, samples = 2, bits = 8,
             bayer = ''grbg'', lut = None\<rparr>,
       print (Xml_parsed 1 2 1) example_world)"
  by (simp add: parse_pds4_label_def example_world_def example_labels_def label_simps
      py_int_examples)





theorem process_pds_image_missing_img_witness:
  "fst (parse_pds4_label example_world ''d/noimg.xml'')
     = Inr \<lparr>file_name = Some ''y.img'', offset = 1, lines = 1, samples = 2, bits = 8,
             bayer = ''grbg'', lut = None\<rparr>
   \<and> \<not> isfile example_world (path_join (dirname ''d/noimg.xml'') ''y.img'')
   \<and> process_pds_image cvt_gray example_world ''d/noimg.xml'' None None
     = (Inr None,
        example_world\<lparr>stdout := [Xml_parsed 1 2 1, Warning_img_not_found ''d/y.img'']\<rparr>)"
proof -
  have a: "fst (parse_pds4_label example_world ''d/noimg.xml'')
     = Inr \<lparr>file_name = Some ''y.img'', offset = 1, lines = 1, samples = 2, bits = 8,
             bayer = ''grbg'', lut = None\<rparr>"
    by (simp add: example_parse_noimg)
  have b: "file_name \<lparr>file_name = Some ''y.img'', offset = 1, lines = 1, samples = 2, bits = 8,
             bayer = ''grbg'', lut = None\<rparr> = Some ''y.img''"
    by simp
  have c: "\<not> isfile example_world (path_join (dirname ''d/noimg.xml'') ''y.img'')"
    by (simp add: isfile_def example_paths example_world_fields)
  show ?thesis
    using a c process_pds_image_missing_img [OF a b c, of cvt_gray None None]
    by (simp add: example_paths example_world_fields)
qed




section \<open>Properties of the label reader\<close>








section \<open>Properties of the colour pipeline\<close>

lemma to_float_range: "0 \<le> to_float v \<and> to_float v \<le> 255"
proof -
  have "unat v < 2 ^ LENGTH(8)" by (rule unsigned_less)
  then have "unat v \<le> 255" by simp
  then have "(of_nat (unat v) :: rat) \<le> of_nat 255" by (rule of_nat_mono)
  then have "to_float v \<le> 255" unfolding to_float_def by simp
  moreover have "0 \<le> to_float v" unfolding to_float_def by (rule of_nat_0_le_iff)
  ultimately show ?thesis by simp
qed

lemma clip_range: "0 \<le> clip x \<and> clip x \<le> 255"
  by (simp add: clip_def)

lemma clip_id: "0 \<le> x \<Longrightarrow> x \<le> 255 \<Longrightarrow> clip x = x"
  by (simp add: clip_def)

lemma uint_astype_clip: "uint (astype_uint8 (clip x)) = \<lfloor>clip x\<rfloor>"
proof -
  have a: "0 \<le> \<lfloor>clip x\<rfloor>" using clip_range [of x] by simp
  have "\<lfloor>clip x\<rfloor> \<le> 255" using clip_range [of x] by (simp add: floor_le_iff)
  then have b: "\<lfloor>clip x\<rfloor> < 2 ^ LENGTH(8)" by simp
  have "astype_uint8 (clip x) = word_of_int \<lfloor>clip x\<rfloor>"
    using clip_range [of x] by (simp add: astype_uint8_def)
  then show ?thesis using a b by (simp add: uint_word_of_int take_bit_int_eq_self)
qed

lemma astype_clip_to_float: "astype_uint8 (clip (to_float v)) = v"
proof -
  have "clip (to_float v) = to_float v" using to_float_range [of v] by (simp add: clip_id)
  moreover have "0 \<le> to_float v" using to_float_range [of v] by simp
  ultimately have "astype_uint8 (clip (to_float v)) = word_of_int \<lfloor>to_float v\<rfloor>"
    by (simp add: astype_uint8_def)
  also have "\<lfloor>to_float v\<rfloor> = int (unat v)" unfolding to_float_def by (rule floor_of_nat)
  also have "word_of_int (int (unat v)) = v" by simp
  finally show ?thesis .
qed

lemma stretch_sample_full: "stretch_sample 0 255 v = v"
  by (simp add: stretch_sample_def stretch_map_def astype_clip_to_float)

lemma map_pixel_id: "map_pixel (\<lambda>v. v) p = p"
  by (simp add: map_pixel_def ch0_def ch1_def ch2_def)

lemma map_image_id: "map_image (\<lambda>v. v) img = img"
  by (simp add: map_image_def map_pixel_id map_idI)

text \<open>
  C9. For an image whose pooled 0.5th and 99.5th percentiles are 0 and 255, the contrast
  stretch maps every sample to itself (the linear map is the identity, and clipping and
  the conversion to \<^verbatim>\<open>uint8\<close> change no sample), so it returns the image as it is;
  applying the stage to its own output returns the same image again.
\<close>

theorem stretch_contrast_full_range:
  assumes "np_percentile (map to_float (ravel img)) (5 / 10) = Some 0"
    and "np_percentile (map to_float (ravel img)) (995 / 10) = Some 255"
  shows "stretch_contrast img = Inr (map_image (stretch_sample 0 255) img)
    \<and> stretch_sample 0 255 v = v
    \<and> stretch_contrast img = Inr img
    \<and> (case stretch_contrast img of Inl e \<Rightarrow> Inl e | Inr out \<Rightarrow> stretch_contrast out) = Inr img"
proof -
  have a: "stretch_contrast img = Inr (map_image (stretch_sample 0 255) img)"
    using assms by (simp add: stretch_contrast_def)
  have "stretch_sample 0 255 = (\<lambda>v. v)" by (rule ext) (rule stretch_sample_full)
  then have b: "map_image (stretch_sample 0 255) img = img" by (simp add: map_image_id)
  show ?thesis using a b by (simp add: stretch_sample_full)
qed

theorem stretch_contrast_full_range_witness:
  "np_percentile (map to_float (ravel [[(0, 0, 0), (216, 255, 255)]])) (5 / 10) = Some 0
   \<and> np_percentile (map to_float (ravel [[(0, 0, 0), (216, 255, 255)]])) (995 / 10) = Some 255
   \<and> stretch_contrast [[(0, 0, 0), (216, 255, 255)]] = Inr [[(0, 0, 0), (216, 255, 255)]]"
proof -
  have srt: "sort [0, 0, 0, 216, 255, 255 :: rat] = [0, 0, 0, 216, 255, 255]"
    by (simp add: sort_key_def)
  have lo: "np_percentile (map to_float (ravel [[(0, 0, 0), (216, 255, 255)]])) (5 / 10) = Some 0"
    by (simp add: np_percentile_def interpolate_def Let_def srt pixel_simps)
  have hi: "np_percentile (map to_float (ravel [[(0, 0, 0), (216, 255, 255)]])) (995 / 10) = Some 255"
    by (simp add: np_percentile_def interpolate_def Let_def srt pixel_simps)
  show ?thesis
    using lo hi stretch_contrast_full_range [OF lo hi] by blast
qed

lemma color_scaled_pixels:
  "color_scaled img
    = map (map (\<lambda>p. (to_float (ch0 p) * (85 / 100), to_float (ch1 p) * (100 / 100),
                      to_float (ch2 p) * (110 / 100)))) img"
  by (simp add: color_scaled_def scale_ch0_def scale_ch1_def scale_ch2_def astype_float_def
      map_image_def map_pixel_def ch0_def ch1_def ch2_def comp_def)

lemma unat_astype_clip: "unat (astype_uint8 (clip x)) = nat \<lfloor>clip x\<rfloor>"
  using uint_astype_clip [of x] by (simp add: unat_eq_nat_uint)

lemma floor_scaled:
  fixes n a b :: nat
  assumes "0 < b"
  shows "\<lfloor>(of_nat n :: rat) * (of_nat a / of_nat b)\<rfloor> = int (n * a div b)"
proof -
  have "(of_nat n :: rat) * (of_nat a / of_nat b) = of_int (int (n * a)) / of_int (int b)"
    by simp
  then have "\<lfloor>(of_nat n :: rat) * (of_nat a / of_nat b)\<rfloor> = int (n * a) div int b"
    by (simp only: floor_divide_of_int_eq)
  then show ?thesis by (simp add: zdiv_int)
qed

lemma floor_clip:
  assumes "0 \<le> x"
  shows "\<lfloor>clip x\<rfloor> = min \<lfloor>x\<rfloor> 255"
proof (cases "x \<le> 255")
  case True
  then have "\<lfloor>x\<rfloor> \<le> 255" by (simp add: floor_le_iff)
  moreover have "clip x = x" using assms True by (simp add: clip_def)
  ultimately show ?thesis by simp
next
  case False
  then have "255 \<le> \<lfloor>x\<rfloor>" by (simp add: le_floor_iff)
  moreover have "clip x = 255" using False by (simp add: clip_def)
  ultimately show ?thesis by simp
qed

lemma scaled_sample:
  fixes n a b :: nat
  assumes "0 < b"
  shows "unat (astype_uint8 (clip (of_nat n * (of_nat a / of_nat b)))) = min 255 (n * a div b)"
proof -
  define x :: rat where "x = of_nat n * (of_nat a / of_nat b)"
  have fl: "\<lfloor>x\<rfloor> = int (n * a div b)"
    unfolding x_def using assms by (rule floor_scaled)
  have "0 \<le> x" unfolding x_def by simp
  then have "\<lfloor>clip x\<rfloor> = min \<lfloor>x\<rfloor> 255" by (rule floor_clip)
  then have "nat \<lfloor>clip x\<rfloor> = min 255 (n * a div b)"
    unfolding fl by (simp add: min_def)
  then show ?thesis
    unfolding x_def [symmetric] by (simp add: unat_astype_clip)
qed

lemma red_sample:
  "unat (astype_uint8 (clip (to_float r * (110 / 100)))) = min 255 (unat r * 11 div 10)"
proof -
  have eq: "to_float r * (110 / 100) = of_nat (unat r) * (of_nat 11 / of_nat 10)"
    unfolding to_float_def by simp
  have "unat (astype_uint8 (clip (of_nat (unat r) * (of_nat 11 / of_nat 10))))
      = min 255 (unat r * 11 div 10)"
    by (rule scaled_sample) simp
  then show ?thesis unfolding eq .
qed

lemma blue_sample:
  "unat (astype_uint8 (clip (to_float b * (85 / 100)))) = unat b * 17 div 20"
proof -
  have eq: "to_float b * (85 / 100) = of_nat (unat b) * (of_nat 17 / of_nat 20)"
    unfolding to_float_def by simp
  have "unat b < 2 ^ LENGTH(8)" by (rule unsigned_less)
  then have "unat b < 256" by simp
  then have small: "min 255 (unat b * 17 div 20) = unat b * 17 div 20" by arith
  have "unat (astype_uint8 (clip (of_nat (unat b) * (of_nat 17 / of_nat 20))))
      = min 255 (unat b * 17 div 20)"
    by (rule scaled_sample) simp
  then show ?thesis unfolding eq small .
qed

lemma green_sample: "astype_uint8 (clip (to_float g * (100 / 100))) = g"
  by (simp add: astype_clip_to_float)

text \<open>
  C5. The working copy of \<^verbatim>\<open>color_correct\<close> before the clipping is the image with
  every blue sample times 0.85, every green sample times 1.00 and every red sample times
  1.10, the same three factors for every image and every pixel; for the image of the single
  pixel with blue \<open>b\<close>, green \<open>g\<close> and red \<open>r\<close> it is that one pixel scaled. The result of
  the stage is this working copy clipped to the interval from 0 to 255 and converted to
  \<^verbatim>\<open>uint8\<close>: blue becomes \<open>17 b div 20\<close>, green stays, and red becomes
  \<open>11 r div 10\<close>, or 255 when that is more.
\<close>

theorem color_correct_linear:
  "color_scaled [[(b, g, r)]]
     = [[(to_float b * (85 / 100), to_float g * (100 / 100), to_float r * (110 / 100))]]
   \<and> color_scaled img
     = map (map (\<lambda>p. (to_float (ch0 p) * (85 / 100), to_float (ch1 p) * (100 / 100),
                       to_float (ch2 p) * (110 / 100)))) img
   \<and> color_correct img = map_image (\<lambda>x. astype_uint8 (clip x)) (color_scaled img)
   \<and> color_correct [[(b, g, r)]]
     = [[(of_nat (unat b * 17 div 20), g, of_nat (min 255 (unat r * 11 div 10)))]]"
proof -
  have one: "color_scaled [[(b, g, r)]]
     = [[(to_float b * (85 / 100), to_float g * (100 / 100), to_float r * (110 / 100))]]"
    by (simp add: color_scaled_pixels ch0_def ch1_def ch2_def)
  have blue: "astype_uint8 (clip (to_float b * (85 / 100))) = of_nat (unat b * 17 div 20)"
  proof -
    have "astype_uint8 (clip (to_float b * (85 / 100)))
        = of_nat (unat (astype_uint8 (clip (to_float b * (85 / 100)))))"
      by simp
    then show ?thesis unfolding blue_sample .
  qed
  have red: "astype_uint8 (clip (to_float r * (110 / 100))) = of_nat (min 255 (unat r * 11 div 10))"
  proof -
    have "astype_uint8 (clip (to_float r * (110 / 100)))
        = of_nat (unat (astype_uint8 (clip (to_float r * (110 / 100)))))"
      by simp
    then show ?thesis unfolding red_sample .
  qed
  have "color_correct [[(b, g, r)]]
     = [[(astype_uint8 (clip (to_float b * (85 / 100))),
          astype_uint8 (clip (to_float g * (100 / 100))),
          astype_uint8 (clip (to_float r * (110 / 100))))]]"
    unfolding color_correct_def one
    by (simp add: clip_uint8_def map_image_def map_pixel_def ch0_def ch1_def ch2_def)
  then have out: "color_correct [[(b, g, r)]]
     = [[(of_nat (unat b * 17 div 20), g, of_nat (min 255 (unat r * 11 div 10)))]]"
    unfolding blue red green_sample .
  show ?thesis
    using one out color_scaled_pixels [of img]
    by (simp add: color_correct_def clip_uint8_def)
qed

section \<open>Properties of the percentiles and of the contrast stretch\<close>



















section \<open>Properties of the white balance\<close>















end
